theory Spec2Isabelle
  imports Complex_Main
begin

section \<open>JavaScript values\<close>

text \<open>
  The values that \<^verbatim>\<open>res.json()\<close>, \<^verbatim>\<open>response.data\<close> and \<^verbatim>\<open>req.body\<close> hand to the code.
  A number is the value the JSON parser produced; the code never computes with one, it
  only tests it for truthiness, so a rational stands for it. A string is a list of
  characters, each standing for one code unit. An object is the list of its own
  properties in property order (keys distinct, as the parser builds them).
\<close>

datatype jsval =
    JUndefined
  | JNull
  | JBool bool
  | JNum rat
  | JStr string
  | JArr "jsval list"
  | JObj "(string \<times> jsval) list"

text \<open>
  The errors the code can meet: \<^verbatim>\<open>fetch\<close> rejecting on a network failure,
  \<^verbatim>\<open>res.json()\<close> rejecting on a body that is not JSON, a property read on
  \<^verbatim>\<open>null\<close> or \<^verbatim>\<open>undefined\<close>, and \<^verbatim>\<open>axios\<close> rejecting.
\<close>

datatype js_error = FetchTypeError | JsonSyntaxError | NullishTypeError | AxiosError

text \<open>ToBoolean.\<close>

fun truthy :: "jsval \<Rightarrow> bool" where
  "truthy JUndefined = False"
| "truthy JNull = False"
| "truthy (JBool b) = b"
| "truthy (JNum n) = (n \<noteq> 0)"
| "truthy (JStr s) = (s \<noteq> [])"
| "truthy (JArr xs) = True"
| "truthy (JObj kvs) = True"

text \<open>\<^verbatim>\<open>a || b\<close>\<close>

definition js_or :: "jsval \<Rightarrow> jsval \<Rightarrow> jsval" where
  "js_or a b = (if truthy a then a else b)"

section \<open>Effects and completions\<close>

record js_file =
  file_name :: string
  mime_type :: string
  file_bytes :: "nat list"

text \<open>A \<^verbatim>\<open>FormData\<close> is its entry list; \<^verbatim>\<open>append\<close> adds an entry at the end.\<close>

type_synonym formData = "(string \<times> js_file) list"

definition formData_append :: "formData \<Rightarrow> string \<Rightarrow> js_file \<Rightarrow> formData" where
  "formData_append fd name v = fd @ [(name, v)]"

text \<open>\<^verbatim>\<open>FormData.getAll(name)\<close>: the values stored under a name, in entry order.\<close>

definition formData_getAll :: "formData \<Rightarrow> string \<Rightarrow> js_file list" where
  "formData_getAll fd name = map snd (filter (\<lambda>e. fst e = name) fd)"

text \<open>
  What a handler does to the outside, in order: the event's \<^verbatim>\<open>preventDefault\<close>, a call
  of a state setter (the type \<open>'u\<close> lists the setters of the page), a \<^verbatim>\<open>fetch\<close> with
  its URL, method and body, an \<^verbatim>\<open>axios.post\<close> with its URL and body, a
  \<^verbatim>\<open>console.error\<close>, and a \<^verbatim>\<open>res.status(n).json(body)\<close>.
\<close>

datatype 'u effect =
    PreventDefault
  | Set 'u
  | Fetch string string formData
  | AxiosPost string jsval
  | ConsoleError js_error
  | Respond nat jsval

text \<open>
  How a piece of code ends: it returns a value, it throws, or it stays suspended at an
  \<^verbatim>\<open>await\<close> whose promise never settles.
\<close>

datatype 'a completion = Returned 'a | Thrown js_error | Suspended

type_synonym ('u, 'a) act = "'u effect list \<times> 'a completion"

definition ret :: "'a \<Rightarrow> ('u, 'a) act" where
  "ret x = ([], Returned x)"

definition throw :: "js_error \<Rightarrow> ('u, 'a) act" where
  "throw e = ([], Thrown e)"

definition emit :: "'u effect \<Rightarrow> ('u, unit) act" where
  "emit ev = ([ev], Returned ())"

definition bind_act :: "('u, 'a) act \<Rightarrow> ('a \<Rightarrow> ('u, 'b) act) \<Rightarrow> ('u, 'b) act" where
  "bind_act m k =
     (case m of
        (es, Returned x) \<Rightarrow> (case k x of (es', c) \<Rightarrow> (es @ es', c))
      | (es, Thrown e) \<Rightarrow> (es, Thrown e)
      | (es, Suspended) \<Rightarrow> (es, Suspended))"

definition seq :: "('u, unit) act \<Rightarrow> ('u, 'b) act \<Rightarrow> ('u, 'b) act" where
  "seq m n = bind_act m (\<lambda>_. n)"

text \<open>\<^verbatim>\<open>try { m } catch (err) { h err }\<close>\<close>

definition try_catch :: "('u, 'a) act \<Rightarrow> (js_error \<Rightarrow> ('u, 'a) act) \<Rightarrow> ('u, 'a) act" where
  "try_catch m h =
     (case m of
        (es, Thrown e) \<Rightarrow> (case h e of (es', c) \<Rightarrow> (es @ es', c))
      | (es, Returned x) \<Rightarrow> (es, Returned x)
      | (es, Suspended) \<Rightarrow> (es, Suspended))"

text \<open>
  \<^verbatim>\<open>try { m } finally { f }\<close>: the finally block runs whenever \<open>m\<close> completes, and the
  completion of \<open>m\<close> stands unless \<open>f\<close> itself throws or suspends.
\<close>

definition try_finally :: "('u, 'a) act \<Rightarrow> ('u, unit) act \<Rightarrow> ('u, 'a) act" where
  "try_finally m f =
     (case m of
        (es, Suspended) \<Rightarrow> (es, Suspended)
      | (es, c) \<Rightarrow>
          (case f of
             (es', Returned _) \<Rightarrow> (es @ es', c)
           | (es', Thrown e) \<Rightarrow> (es @ es', Thrown e)
           | (es', Suspended) \<Rightarrow> (es @ es', Suspended)))"

text \<open>
  Reading a property: a \<^verbatim>\<open>TypeError\<close> on \<^verbatim>\<open>null\<close> and \<^verbatim>\<open>undefined\<close>, the own property of
  an object, \<^verbatim>\<open>undefined\<close> where there is none. The names the source reads
  (\<^verbatim>\<open>reply\<close>, \<^verbatim>\<open>missing_documents\<close>, \<^verbatim>\<open>error\<close>, \<^verbatim>\<open>rows\<close>, \<^verbatim>\<open>row_count\<close>, \<^verbatim>\<open>totals\<close>,
  \<^verbatim>\<open>prompt\<close>) are inherited from no prototype, which is what the last three equations
  rely on.
\<close>

fun get_prop :: "jsval \<Rightarrow> string \<Rightarrow> ('u, jsval) act" where
  "get_prop JUndefined k = throw NullishTypeError"
| "get_prop JNull k = throw NullishTypeError"
| "get_prop (JObj kvs) k = ret (case map_of kvs k of None \<Rightarrow> JUndefined | Some v \<Rightarrow> v)"
| "get_prop (JBool b) k = ret JUndefined"
| "get_prop (JNum n) k = ret JUndefined"
| "get_prop (JStr s) k = ret JUndefined"
| "get_prop (JArr xs) k = ret JUndefined"

text \<open>The network, as the handler sees it.\<close>

datatype body_outcome = JsonBody jsval | NotJson

datatype fetch_outcome = NeverSettles | NetworkFailure | Response nat body_outcome

text \<open>
  \<^verbatim>\<open>await fetch(url, { method, body })\<close>: one network call; the promise rejects on a
  network failure and resolves on every HTTP status.
\<close>

definition fetch :: "fetch_outcome \<Rightarrow> string \<Rightarrow> string \<Rightarrow> formData \<Rightarrow> ('u, nat \<times> body_outcome) act" where
  "fetch net url method body =
     ([Fetch url method body],
      case net of
        NeverSettles \<Rightarrow> Suspended
      | NetworkFailure \<Rightarrow> Thrown FetchTypeError
      | Response status b \<Rightarrow> Returned (status, b))"

text \<open>\<^verbatim>\<open>await res.json()\<close>\<close>

definition res_json :: "nat \<times> body_outcome \<Rightarrow> ('u, jsval) act" where
  "res_json res = (case snd res of JsonBody v \<Rightarrow> ret v | NotJson \<Rightarrow> throw JsonSyntaxError)"

text \<open>\<^verbatim>\<open>process.env\<close>\<close>

type_synonym env = "string \<rightharpoonup> string"

text \<open>\<^verbatim>\<open>process.env.X || d\<close>: the default also replaces an empty value.\<close>

definition env_or :: "string option \<Rightarrow> string \<Rightarrow> string" where
  "env_or v d = (case v of None \<Rightarrow> d | Some s \<Rightarrow> if s \<noteq> [] then s else d)"

text \<open>\<^verbatim>\<open>process.env.X + s\<close>: string concatenation turns \<^verbatim>\<open>undefined\<close> into its name.\<close>

definition env_plus :: "string option \<Rightarrow> string \<Rightarrow> string" where
  "env_plus v s = (case v of None \<Rightarrow> ''undefined'' @ s | Some u \<Rightarrow> u @ s)"

section \<open>The GST notice page (src/gst.js)\<close>

record gst_state =
  noticeFile :: "js_file option"
  supportFiles :: "js_file list"
  reply :: jsval
  missing :: jsval
  loading :: bool

text \<open>The \<^verbatim>\<open>useState\<close> initial values.\<close>

definition gst_initial :: gst_state where
  "gst_initial = \<lparr>noticeFile = None, supportFiles = [], reply = JStr [], missing = JArr [], loading = False\<rparr>"

datatype gst_set = SetLoading bool | SetReply jsval | SetMissing jsval

fun gst_apply :: "gst_state \<Rightarrow> gst_set effect \<Rightarrow> gst_state" where
  "gst_apply s (Set (SetLoading b)) = s\<lparr>loading := b\<rparr>"
| "gst_apply s (Set (SetReply v)) = s\<lparr>reply := v\<rparr>"
| "gst_apply s (Set (SetMissing v)) = s\<lparr>missing := v\<rparr>"
| "gst_apply s _ = s"

definition gst_run :: "gst_state \<Rightarrow> gst_set effect list \<Rightarrow> gst_state" where
  "gst_run s es = foldl gst_apply s es"

text \<open>
  Lines 19 to 23: \<^verbatim>\<open>formData.append('notice', noticeFile)\<close>, then one
  \<^verbatim>\<open>formData.append('additional_documents', file)\<close> for each support file.
\<close>

definition gst_formData :: "js_file \<Rightarrow> js_file list \<Rightarrow> formData" where
  "gst_formData notice support =
     foldl (\<lambda>fd file. formData_append fd ''additional_documents'' file)
       (formData_append [] ''notice'' notice) support"

definition gst_backendURL :: "env \<Rightarrow> string" where
  "gst_backendURL env = env_or (env ''NEXT_PUBLIC_BACKEND_URL'') ''http://localhost:8000''"

text \<open>\<^verbatim>\<open>handleSubmit\<close>, lines 15 to 38.\<close>

definition gst_handleSubmit :: "env \<Rightarrow> gst_state \<Rightarrow> fetch_outcome \<Rightarrow> (gst_set, unit) act" where
  "gst_handleSubmit env s net =
     seq (emit PreventDefault)
       (case noticeFile s of
          None \<Rightarrow> ret ()
        | Some notice \<Rightarrow>
            seq (emit (Set (SetLoading True)))
              (let formData = gst_formData notice (supportFiles s) in
               try_finally
                 (try_catch
                    (let backendURL = gst_backendURL env in
                     bind_act (fetch net (backendURL @ ''/gst_notice'') ''POST'' formData) (\<lambda>res.
                     bind_act (res_json res) (\<lambda>data.
                     bind_act (get_prop data ''reply'') (\<lambda>r.
                     seq (emit (Set (SetReply r)))
                       (bind_act (get_prop data ''missing_documents'') (\<lambda>m.
                        emit (Set (SetMissing (js_or m (JArr []))))))))))
                    (\<lambda>err. emit (ConsoleError err)))
                 (emit (Set (SetLoading False)))))"

text \<open>The network calls and the setter calls of a trace.\<close>

fun is_network :: "'u effect \<Rightarrow> bool" where
  "is_network (Fetch url method body) = True"
| "is_network (AxiosPost url body) = True"
| "is_network _ = False"

fun is_set :: "'u effect \<Rightarrow> bool" where
  "is_set (Set u) = True"
| "is_set _ = False"

definition network_calls :: "'u effect list \<Rightarrow> 'u effect list" where
  "network_calls es = filter is_network es"

definition setter_calls :: "'u effect list \<Rightarrow> 'u effect list" where
  "setter_calls es = filter is_set es"

text \<open>
  \<^verbatim>\<open>Object.entries(v)\<close>: the own properties of an object in property order, the
  index/element pairs of an array, the index/character pairs of a string, nothing for
  a number or a boolean, a \<^verbatim>\<open>TypeError\<close> for \<^verbatim>\<open>null\<close> and \<^verbatim>\<open>undefined\<close>.
\<close>

function string_of_nat :: "nat \<Rightarrow> string" where
  "string_of_nat n =
     (if n < 10 then [''0123456789'' ! n]
      else string_of_nat (n div 10) @ [''0123456789'' ! (n mod 10)])"
  by pat_completeness auto
termination
  by (relation "measure id") auto

definition indexed :: "'a list \<Rightarrow> (string \<times> 'a) list" where
  "indexed xs = zip (map string_of_nat [0..<length xs]) xs"

fun Object_entries :: "jsval \<Rightarrow> ('u, (string \<times> jsval) list) act" where
  "Object_entries JUndefined = throw NullishTypeError"
| "Object_entries JNull = throw NullishTypeError"
| "Object_entries (JObj kvs) = ret kvs"
| "Object_entries (JArr xs) = ret (indexed xs)"
| "Object_entries (JStr s) = ret (indexed (map (\<lambda>c. JStr [c]) s))"
| "Object_entries (JBool b) = ret []"
| "Object_entries (JNum n) = ret []"

text \<open>
  The value of a JSX expression \<^verbatim>\<open>{v && <element/>}\<close>: the element when \<open>v\<close> is
  truthy, the falsy value \<open>v\<close> itself otherwise.
\<close>

datatype 'a slot = Elem 'a | Falsy jsval

section \<open>The Tally import page (src/unnamed/part_001)\<close>

text \<open>The state variables \<^verbatim>\<open>file\<close>, \<^verbatim>\<open>result\<close> and \<^verbatim>\<open>loading\<close>.\<close>

record tally_state =
  tally_file :: "js_file option"
  tally_result :: jsval
  tally_loading :: bool

definition tally_initial :: tally_state where
  "tally_initial = \<lparr>tally_file = None, tally_result = JNull, tally_loading = False\<rparr>"

datatype tally_set = SetResult jsval | SetTallyLoading bool

fun tally_apply :: "tally_state \<Rightarrow> tally_set effect \<Rightarrow> tally_state" where
  "tally_apply s (Set (SetResult v)) = s\<lparr>tally_result := v\<rparr>"
| "tally_apply s (Set (SetTallyLoading b)) = s\<lparr>tally_loading := b\<rparr>"
| "tally_apply s _ = s"

definition tally_run :: "tally_state \<Rightarrow> tally_set effect list \<Rightarrow> tally_state" where
  "tally_run s es = foldl tally_apply s es"

definition tally_backendURL :: "env \<Rightarrow> string" where
  "tally_backendURL env = env_or (env ''NEXT_PUBLIC_BACKEND_URL'') ''http://localhost:8000''"

text \<open>\<^verbatim>\<open>handleSubmit\<close>, lines 15 to 35 of src/unnamed/part_001.\<close>

definition tally_handleSubmit :: "env \<Rightarrow> tally_state \<Rightarrow> fetch_outcome \<Rightarrow> (tally_set, unit) act" where
  "tally_handleSubmit env s net =
     seq (emit PreventDefault)
       (case tally_file s of
          None \<Rightarrow> ret ()
        | Some f \<Rightarrow>
            (let formData = formData_append [] ''file'' f in
             seq (emit (Set (SetTallyLoading True)))
               (try_finally
                  (try_catch
                     (let backendURL = tally_backendURL env in
                      bind_act (fetch net (backendURL @ ''/import_tally'') ''POST'' formData) (\<lambda>res.
                      bind_act (res_json res) (\<lambda>data.
                      emit (Set (SetResult data)))))
                     (\<lambda>err.
                        seq (emit (ConsoleError err))
                          (emit (Set (SetResult (JObj [(''error'', JStr ''Failed to import file'')]))))))
                  (emit (Set (SetTallyLoading False))))))"

text \<open>
  The summary the page renders from \<^verbatim>\<open>result\<close>, lines 48 to 66: the three inner JSX
  expressions and the outer \<^verbatim>\<open>result && (...)\<close>. The record holds the values handed to
  React: the error text, the row count, and the \<^verbatim>\<open>[col, total]\<close> pairs of the list.
\<close>

record tally_summary =
  error_slot :: "jsval slot"
  rows_slot :: "jsval slot"
  totals_slot :: "(string \<times> jsval) list slot"

definition tally_render :: "jsval \<Rightarrow> (unit, tally_summary slot) act" where
  "tally_render res =
     (if truthy res then
        bind_act (get_prop res ''error'') (\<lambda>error.
        bind_act (get_prop res ''rows'') (\<lambda>rows.
        bind_act (get_prop res ''totals'') (\<lambda>totals.
        bind_act (if truthy totals
                  then bind_act (Object_entries totals) (\<lambda>entries. ret (Elem entries))
                  else ret (Falsy totals)) (\<lambda>totals_list.
        ret (Elem \<lparr>error_slot = (if truthy error then Elem error else Falsy error),
                   rows_slot = (if rows \<noteq> JUndefined then Elem rows else Falsy (JBool False)),
                   totals_slot = totals_list\<rparr>)))))
      else ret (Falsy res))"

section \<open>The Tally import page, second variant (src/README.md, lines 73 to 136)\<close>

text \<open>
  The same state and setters. This \<^verbatim>\<open>handleSubmit\<close> (lines 86 to 105) sets the loading
  flag before it builds the form data, and its catch block only logs.
\<close>

definition tally2_handleSubmit :: "env \<Rightarrow> tally_state \<Rightarrow> fetch_outcome \<Rightarrow> (tally_set, unit) act" where
  "tally2_handleSubmit env s net =
     seq (emit PreventDefault)
       (case tally_file s of
          None \<Rightarrow> ret ()
        | Some f \<Rightarrow>
            seq (emit (Set (SetTallyLoading True)))
              (let formData = formData_append [] ''file'' f in
               try_finally
                 (try_catch
                    (let backendURL = tally_backendURL env in
                     bind_act (fetch net (backendURL @ ''/import_tally'') ''POST'' formData) (\<lambda>res.
                     bind_act (res_json res) (\<lambda>data.
                     emit (Set (SetResult data)))))
                    (\<lambda>err. emit (ConsoleError err)))
                 (emit (Set (SetTallyLoading False)))))"

text \<open>
  Its summary, lines 120 to 134: the row count is read from \<^verbatim>\<open>result.row_count\<close> and
  always rendered; the list holds \<^verbatim>\<open>result.totals && Object.entries(result.totals)\<close>.
\<close>

record tally2_summary =
  rows_processed :: jsval
  totals_items :: "(string \<times> jsval) list slot"

definition tally2_render :: "jsval \<Rightarrow> (unit, tally2_summary slot) act" where
  "tally2_render res =
     (if truthy res then
        bind_act (get_prop res ''row_count'') (\<lambda>row_count.
        bind_act (get_prop res ''totals'') (\<lambda>totals.
        bind_act (if truthy totals
                  then bind_act (Object_entries totals) (\<lambda>entries. ret (Elem entries))
                  else ret (Falsy totals)) (\<lambda>items.
        ret (Elem \<lparr>rows_processed = row_count, totals_items = items\<rparr>))))
      else ret (Falsy res))"

section \<open>The completion bridge (src/frontend/pages/api/generate.js)\<close>

record request =
  req_method :: string
  req_body :: jsval

text \<open>
  \<^verbatim>\<open>await axios.post(url, body)\<close>: one network call; the promise rejects on a network
  failure and on a status outside 2xx, and resolves to a response whose \<^verbatim>\<open>data\<close> is
  returned here.
\<close>

datatype axios_outcome = AxiosNeverSettles | AxiosRejected | AxiosResolved jsval

definition axios_post :: "axios_outcome \<Rightarrow> string \<Rightarrow> jsval \<Rightarrow> ('u, jsval) act" where
  "axios_post down url body =
     ([AxiosPost url body],
      case down of
        AxiosNeverSettles \<Rightarrow> Suspended
      | AxiosRejected \<Rightarrow> Thrown AxiosError
      | AxiosResolved d \<Rightarrow> Returned d)"

text \<open>\<^verbatim>\<open>handler\<close>, lines 3 to 21. The destructuring of \<^verbatim>\<open>req.body\<close> is outside the try.\<close>

definition handler :: "env \<Rightarrow> request \<Rightarrow> axios_outcome \<Rightarrow> (unit, unit) act" where
  "handler env req down =
     (if req_method req \<noteq> ''POST''
      then emit (Respond 405 (JObj [(''message'', JStr ''Method not allowed'')]))
      else
        bind_act (get_prop (req_body req) ''prompt'') (\<lambda>prompt.
        try_catch
          (bind_act (axios_post down (env_plus (env ''NEXT_PUBLIC_BACKEND_URL'') ''/generate_reply'')
                       (JObj [(''message'', prompt)])) (\<lambda>data.
           bind_act (get_prop data ''reply'') (\<lambda>r.
           let reply = js_or r (JStr []) in
           emit (Respond 200 (JObj [(''reply'', reply)])))))
          (\<lambda>error.
             seq (emit (ConsoleError error))
               (emit (Respond 500 (JObj [(''message'', JStr ''Error generating reply'')]))))))"

section \<open>The base URL at the other call sites\<close>

text \<open>\<^verbatim>\<open>a || b\<close> on two environment values.\<close>

definition opt_or :: "string option \<Rightarrow> string option \<Rightarrow> string option" where
  "opt_or a b = (case a of None \<Rightarrow> b | Some s \<Rightarrow> if s \<noteq> [] then Some s else b)"

text \<open>Tasks (src/unnamed/part_000, line 13) and Appointments (src/unnamed/part_002, line 52).\<close>

definition Tasks_backendURL :: "env \<Rightarrow> string" where
  "Tasks_backendURL env = env_or (env ''NEXT_PUBLIC_BACKEND_URL'') ''http://localhost:8000''"

definition Appointments_backendURL :: "env \<Rightarrow> string" where
  "Appointments_backendURL env = env_or (env ''NEXT_PUBLIC_BACKEND_URL'') ''http://localhost:8000''"

text \<open>Clients (src/unnamed/part_003, lines 16 and 17).\<close>

definition Clients_baseURL :: "env \<Rightarrow> string" where
  "Clients_baseURL env =
     env_or (opt_or (env ''NEXT_PUBLIC_BACKEND_URL'') (env ''BACKEND_URL'')) ''http://localhost:8000''"

text \<open>The \<^verbatim>\<open>console.error\<close> calls of a trace.\<close>

fun is_log :: "'u effect \<Rightarrow> bool" where
  "is_log (ConsoleError e) = True"
| "is_log _ = False"

definition logged :: "'u effect list \<Rightarrow> 'u effect list" where
  "logged es = filter is_log es"

section \<open>Property reads that do not throw\<close>

text \<open>
  \<open>get_prop\<close> split in two: on which values it throws, and what it returns on the
  others.
\<close>

fun nullish :: "jsval \<Rightarrow> bool" where
  "nullish JUndefined = True"
| "nullish JNull = True"
| "nullish _ = False"

fun member :: "jsval \<Rightarrow> string \<Rightarrow> jsval" where
  "member (JObj kvs) k = (case map_of kvs k of None \<Rightarrow> JUndefined | Some v \<Rightarrow> v)"
| "member _ k = JUndefined"

section \<open>Example inputs\<close>

definition example_file :: js_file where
  "example_file =
     \<lparr>file_name = ''notice.pdf'', mime_type = ''application/pdf'', file_bytes = [37, 80, 68, 70]\<rparr>"

definition example_support :: js_file where
  "example_support =
     \<lparr>file_name = ''pan.txt'', mime_type = ''text/plain'', file_bytes = [80, 65, 78]\<rparr>"

definition example_gst_state :: gst_state where
  "example_gst_state = gst_initial\<lparr>noticeFile := Some example_file\<rparr>"

definition example_tally_state :: tally_state where
  "example_tally_state = tally_initial\<lparr>tally_file := Some example_file\<rparr>"

text \<open>\<^verbatim>\<open>{ "reply": "Dear Sir...", "missing_documents": ["PAN card"] }\<close>\<close>

definition example_notice_response :: jsval where
  "example_notice_response =
     JObj [(''reply'', JStr ''Dear Sir...''), (''missing_documents'', JArr [JStr ''PAN card''])]"

text \<open>\<^verbatim>\<open>{ "rows": 42, "totals": {"Debit": 1000.5, "Credit": 1000.5} }\<close>\<close>

definition example_tabular_response :: jsval where
  "example_tabular_response =
     JObj [(''rows'', JNum 42),
           (''totals'', JObj [(''Debit'', JNum (2001 / 2)), (''Credit'', JNum (2001 / 2))])]"

definition example_request :: request where
  "example_request = \<lparr>req_method = ''POST'', req_body = JObj [(''prompt'', JStr ''Hello'')]\<rparr>"

section \<open>The monad unfolded\<close>

lemmas act_defs =
  ret_def throw_def emit_def bind_act_def seq_def try_catch_def try_finally_def
  fetch_def res_json_def axios_post_def

lemma get_prop_nullish: "nullish v \<Longrightarrow> get_prop v k = ([], Thrown NullishTypeError)"
  by (cases v) (simp_all add: throw_def)

lemma get_prop_member: "\<not> nullish v \<Longrightarrow> get_prop v k = ([], Returned (member v k))"
  by (cases v) (simp_all add: ret_def)

lemma truthy_not_nullish: "truthy v \<Longrightarrow> \<not> nullish v"
  by (cases v) simp_all

section \<open>The traces of the GST notice handler\<close>

lemma gst_formData_eq:
  "gst_formData notice support =
     (''notice'', notice) # map (\<lambda>file. (''additional_documents'', file)) support"
proof -
  have "foldl (\<lambda>fd file. formData_append fd ''additional_documents'' file) acc support =
          acc @ map (\<lambda>file. (''additional_documents'', file)) support" for acc
    by (induction support arbitrary: acc) (simp_all add: formData_append_def)
  then show ?thesis
    by (simp add: gst_formData_def formData_append_def)
qed

lemma gst_no_file:
  "noticeFile s = None \<Longrightarrow> gst_handleSubmit env s net = ([PreventDefault], Returned ())"
  by (simp add: gst_handleSubmit_def act_defs)

lemma gst_never_settles:
  "noticeFile s = Some f \<Longrightarrow>
   gst_handleSubmit env s NeverSettles =
     ([PreventDefault, Set (SetLoading True),
       Fetch (gst_backendURL env @ ''/gst_notice'') ''POST'' (gst_formData f (supportFiles s))],
      Suspended)"
  by (simp add: gst_handleSubmit_def act_defs)

lemma gst_network_failure:
  "noticeFile s = Some f \<Longrightarrow>
   gst_handleSubmit env s NetworkFailure =
     ([PreventDefault, Set (SetLoading True),
       Fetch (gst_backendURL env @ ''/gst_notice'') ''POST'' (gst_formData f (supportFiles s)),
       ConsoleError FetchTypeError, Set (SetLoading False)],
      Returned ())"
  by (simp add: gst_handleSubmit_def act_defs)

lemma gst_not_json:
  "noticeFile s = Some f \<Longrightarrow>
   gst_handleSubmit env s (Response status NotJson) =
     ([PreventDefault, Set (SetLoading True),
       Fetch (gst_backendURL env @ ''/gst_notice'') ''POST'' (gst_formData f (supportFiles s)),
       ConsoleError JsonSyntaxError, Set (SetLoading False)],
      Returned ())"
  by (simp add: gst_handleSubmit_def act_defs)

lemma gst_nullish:
  "noticeFile s = Some f \<Longrightarrow> nullish d \<Longrightarrow>
   gst_handleSubmit env s (Response status (JsonBody d)) =
     ([PreventDefault, Set (SetLoading True),
       Fetch (gst_backendURL env @ ''/gst_notice'') ''POST'' (gst_formData f (supportFiles s)),
       ConsoleError NullishTypeError, Set (SetLoading False)],
      Returned ())"
  by (simp add: gst_handleSubmit_def act_defs get_prop_nullish)

lemma gst_mapped:
  "noticeFile s = Some f \<Longrightarrow> \<not> nullish d \<Longrightarrow>
   gst_handleSubmit env s (Response status (JsonBody d)) =
     ([PreventDefault, Set (SetLoading True),
       Fetch (gst_backendURL env @ ''/gst_notice'') ''POST'' (gst_formData f (supportFiles s)),
       Set (SetReply (member d ''reply'')),
       Set (SetMissing (js_or (member d ''missing_documents'') (JArr []))),
       Set (SetLoading False)],
      Returned ())"
  by (simp add: gst_handleSubmit_def act_defs get_prop_member)

lemma gst_not_thrown: "snd (gst_handleSubmit env s net) \<noteq> Thrown e"
proof (cases "noticeFile s")
  case None
  then show ?thesis by (simp add: gst_no_file)
next
  case (Some f)
  show ?thesis
  proof (cases net)
    case NeverSettles
    with Some show ?thesis by (simp add: gst_never_settles)
  next
    case NetworkFailure
    with Some show ?thesis by (simp add: gst_network_failure)
  next
    case (Response status b)
    show ?thesis
    proof (cases b)
      case NotJson
      with Some Response show ?thesis by (simp add: gst_not_json)
    next
      case (JsonBody d)
      with Some Response show ?thesis
        by (cases "nullish d") (simp_all add: gst_nullish gst_mapped)
    qed
  qed
qed

section \<open>The traces of the two Tally handlers\<close>

lemma tally_no_file:
  "tally_file t = None \<Longrightarrow> tally_handleSubmit env t net = ([PreventDefault], Returned ())"
  by (simp add: tally_handleSubmit_def act_defs)

lemma tally_never_settles:
  "tally_file t = Some g \<Longrightarrow>
   tally_handleSubmit env t NeverSettles =
     ([PreventDefault, Set (SetTallyLoading True),
       Fetch (tally_backendURL env @ ''/import_tally'') ''POST'' [(''file'', g)]],
      Suspended)"
  by (simp add: tally_handleSubmit_def act_defs formData_append_def)

lemma tally_network_failure:
  "tally_file t = Some g \<Longrightarrow>
   tally_handleSubmit env t NetworkFailure =
     ([PreventDefault, Set (SetTallyLoading True),
       Fetch (tally_backendURL env @ ''/import_tally'') ''POST'' [(''file'', g)],
       ConsoleError FetchTypeError,
       Set (SetResult (JObj [(''error'', JStr ''Failed to import file'')])),
       Set (SetTallyLoading False)],
      Returned ())"
  by (simp add: tally_handleSubmit_def act_defs formData_append_def)

lemma tally_not_json:
  "tally_file t = Some g \<Longrightarrow>
   tally_handleSubmit env t (Response status NotJson) =
     ([PreventDefault, Set (SetTallyLoading True),
       Fetch (tally_backendURL env @ ''/import_tally'') ''POST'' [(''file'', g)],
       ConsoleError JsonSyntaxError,
       Set (SetResult (JObj [(''error'', JStr ''Failed to import file'')])),
       Set (SetTallyLoading False)],
      Returned ())"
  by (simp add: tally_handleSubmit_def act_defs formData_append_def)

lemma tally_json:
  "tally_file t = Some g \<Longrightarrow>
   tally_handleSubmit env t (Response status (JsonBody d)) =
     ([PreventDefault, Set (SetTallyLoading True),
       Fetch (tally_backendURL env @ ''/import_tally'') ''POST'' [(''file'', g)],
       Set (SetResult d), Set (SetTallyLoading False)],
      Returned ())"
  by (simp add: tally_handleSubmit_def act_defs formData_append_def)

lemma tally_not_thrown: "snd (tally_handleSubmit env t net) \<noteq> Thrown e"
proof (cases "tally_file t")
  case None
  then show ?thesis by (simp add: tally_no_file)
next
  case (Some g)
  show ?thesis
  proof (cases net)
    case NeverSettles
    with Some show ?thesis by (simp add: tally_never_settles)
  next
    case NetworkFailure
    with Some show ?thesis by (simp add: tally_network_failure)
  next
    case (Response status b)
    with Some show ?thesis
      by (cases b) (simp_all add: tally_not_json tally_json)
  qed
qed

lemma tally2_no_file:
  "tally_file t = None \<Longrightarrow> tally2_handleSubmit env t net = ([PreventDefault], Returned ())"
  by (simp add: tally2_handleSubmit_def act_defs)

lemma tally2_never_settles:
  "tally_file t = Some g \<Longrightarrow>
   tally2_handleSubmit env t NeverSettles =
     ([PreventDefault, Set (SetTallyLoading True),
       Fetch (tally_backendURL env @ ''/import_tally'') ''POST'' [(''file'', g)]],
      Suspended)"
  by (simp add: tally2_handleSubmit_def act_defs formData_append_def)

lemma tally2_network_failure:
  "tally_file t = Some g \<Longrightarrow>
   tally2_handleSubmit env t NetworkFailure =
     ([PreventDefault, Set (SetTallyLoading True),
       Fetch (tally_backendURL env @ ''/import_tally'') ''POST'' [(''file'', g)],
       ConsoleError FetchTypeError, Set (SetTallyLoading False)],
      Returned ())"
  by (simp add: tally2_handleSubmit_def act_defs formData_append_def)

lemma tally2_not_json:
  "tally_file t = Some g \<Longrightarrow>
   tally2_handleSubmit env t (Response status NotJson) =
     ([PreventDefault, Set (SetTallyLoading True),
       Fetch (tally_backendURL env @ ''/import_tally'') ''POST'' [(''file'', g)],
       ConsoleError JsonSyntaxError, Set (SetTallyLoading False)],
      Returned ())"
  by (simp add: tally2_handleSubmit_def act_defs formData_append_def)

lemma tally2_json:
  "tally_file t = Some g \<Longrightarrow>
   tally2_handleSubmit env t (Response status (JsonBody d)) =
     ([PreventDefault, Set (SetTallyLoading True),
       Fetch (tally_backendURL env @ ''/import_tally'') ''POST'' [(''file'', g)],
       Set (SetResult d), Set (SetTallyLoading False)],
      Returned ())"
  by (simp add: tally2_handleSubmit_def act_defs formData_append_def)

lemma tally2_not_thrown: "snd (tally2_handleSubmit env t net) \<noteq> Thrown e"
proof (cases "tally_file t")
  case None
  then show ?thesis by (simp add: tally2_no_file)
next
  case (Some g)
  show ?thesis
  proof (cases net)
    case NeverSettles
    with Some show ?thesis by (simp add: tally2_never_settles)
  next
    case NetworkFailure
    with Some show ?thesis by (simp add: tally2_network_failure)
  next
    case (Response status b)
    with Some show ?thesis
      by (cases b) (simp_all add: tally2_not_json tally2_json)
  qed
qed

section \<open>The rendered summaries\<close>

lemma tally_render_rows_totals:
  assumes "map_of kvs ''rows'' = Some r" and "r \<noteq> JUndefined"
    and "map_of kvs ''totals'' = Some (JObj ts)"
  shows "tally_render (JObj kvs) =
     ([], Returned (Elem
        \<lparr>error_slot = (case map_of kvs ''error'' of
                          None \<Rightarrow> Falsy JUndefined
                        | Some e \<Rightarrow> if truthy e then Elem e else Falsy e),
         rows_slot = Elem r,
         totals_slot = Elem ts\<rparr>))"
  using assms by (simp add: tally_render_def act_defs split: option.splits)

lemma tally2_render_totals:
  assumes "map_of kvs ''totals'' = Some (JObj ts)"
  shows "tally2_render (JObj kvs) =
     ([], Returned (Elem
        \<lparr>rows_processed = (case map_of kvs ''row_count'' of None \<Rightarrow> JUndefined | Some v \<Rightarrow> v),
         totals_items = Elem ts\<rparr>))"
  using assms by (simp add: tally2_render_def act_defs split: option.splits)

section \<open>The traces of the completion bridge\<close>

lemma handler_not_post:
  "req_method req \<noteq> ''POST'' \<Longrightarrow>
   handler env req down =
     ([Respond 405 (JObj [(''message'', JStr ''Method not allowed'')])], Returned ())"
  by (simp add: handler_def act_defs)

lemma handler_resolved:
  assumes "req_method req = ''POST''" and "\<not> nullish (req_body req)" and "\<not> nullish d"
  shows "handler env req (AxiosResolved d) =
     ([AxiosPost (env_plus (env ''NEXT_PUBLIC_BACKEND_URL'') ''/generate_reply'')
         (JObj [(''message'', member (req_body req) ''prompt'')]),
       Respond 200 (JObj [(''reply'', js_or (member d ''reply'') (JStr []))])],
      Returned ())"
  using assms by (simp add: handler_def act_defs get_prop_member)

lemma handler_network_calls:
  assumes "req_method req = ''POST''" and "\<not> nullish (req_body req)"
  shows "network_calls (fst (handler env req down)) =
     [AxiosPost (env_plus (env ''NEXT_PUBLIC_BACKEND_URL'') ''/generate_reply'')
        (JObj [(''message'', member (req_body req) ''prompt'')])]"
proof (cases down)
  case AxiosNeverSettles
  with assms show ?thesis
    by (simp add: handler_def act_defs get_prop_member network_calls_def)
next
  case AxiosRejected
  with assms show ?thesis
    by (simp add: handler_def act_defs get_prop_member network_calls_def)
next
  case (AxiosResolved d)
  show ?thesis
  proof (cases "nullish d")
    case True
    with assms AxiosResolved show ?thesis
      by (simp add: handler_def act_defs get_prop_member get_prop_nullish network_calls_def)
  next
    case False
    with assms AxiosResolved show ?thesis
      by (simp add: handler_resolved network_calls_def)
  qed
qed

section \<open>The base URL\<close>

lemma base_url_defaults:
  assumes "env ''NEXT_PUBLIC_BACKEND_URL'' = None"
  shows "gst_backendURL env = ''http://localhost:8000''"
    and "tally_backendURL env = ''http://localhost:8000''"
    and "Tasks_backendURL env = ''http://localhost:8000''"
    and "Appointments_backendURL env = ''http://localhost:8000''"
    and "env ''BACKEND_URL'' = None \<Longrightarrow> Clients_baseURL env = ''http://localhost:8000''"
  using assms
  by (simp_all add: gst_backendURL_def tally_backendURL_def Tasks_backendURL_def
      Appointments_backendURL_def Clients_baseURL_def env_or_def opt_or_def)

lemma base_url_configured:
  assumes "env ''NEXT_PUBLIC_BACKEND_URL'' = Some u" and "u \<noteq> []"
  shows "gst_backendURL env = u" and "tally_backendURL env = u" and "Tasks_backendURL env = u"
    and "Appointments_backendURL env = u" and "Clients_baseURL env = u"
    and "env_plus (env ''NEXT_PUBLIC_BACKEND_URL'') ''/generate_reply'' = u @ ''/generate_reply''"
  using assms
  by (simp_all add: gst_backendURL_def tally_backendURL_def Tasks_backendURL_def
      Appointments_backendURL_def Clients_baseURL_def env_or_def opt_or_def env_plus_def)

section \<open>The claims\<close>

text \<open>
  C1. For the response \<^verbatim>\<open>{ "missing_documents": ["PAN card"] }\<close>, which has no
  \<^verbatim>\<open>reply\<close> field, the handler stores \<^verbatim>\<open>undefined\<close> as the reply, not the empty string:
  line 31 passes \<^verbatim>\<open>data.reply\<close> on without the default that line 32 gives
  \<^verbatim>\<open>data.missing_documents\<close>. The missing-documents list is stored as sent and nothing is
  thrown.
\<close>

theorem gst_reply_absent_stored_undefined:
  "gst_handleSubmit Map.empty example_gst_state
     (Response 200 (JsonBody (JObj [(''missing_documents'', JArr [JStr ''PAN card''])]))) =
     ([PreventDefault, Set (SetLoading True),
       Fetch ''http://localhost:8000/gst_notice'' ''POST'' [(''notice'', example_file)],
       Set (SetReply JUndefined), Set (SetMissing (JArr [JStr ''PAN card''])),
       Set (SetLoading False)],
      Returned ()) \<and>
   reply (gst_run example_gst_state (fst (gst_handleSubmit Map.empty example_gst_state
     (Response 200 (JsonBody (JObj [(''missing_documents'', JArr [JStr ''PAN card''])])))))) =
     JUndefined \<and>
   JUndefined \<noteq> JStr []"
  by (simp add: gst_mapped example_gst_state_def gst_initial_def gst_backendURL_def env_or_def
      gst_formData_eq js_or_def gst_run_def)

text \<open>
  C2. The payload built from a notice file and any list of support files holds exactly
  one entry named \<^verbatim>\<open>notice\<close>, the notice file, and under \<^verbatim>\<open>additional_documents\<close> exactly the
  support files, as many and in the same order; it holds no other entry.
\<close>

theorem gst_formData_entries:
  "formData_getAll (gst_formData notice support) ''notice'' = [notice] \<and>
   formData_getAll (gst_formData notice support) ''additional_documents'' = support \<and>
   length (formData_getAll (gst_formData notice support) ''additional_documents'') = length support \<and>
   length (gst_formData notice support) = 1 + length support"
proof -
  have a: "filter (\<lambda>e. fst e = ''notice'') (map (\<lambda>file. (''additional_documents'', file)) support) = []"
    by (induction support) simp_all
  show ?thesis
    by (simp add: gst_formData_eq formData_getAll_def a comp_def)
qed

text \<open>
  C3. When no file is selected, each of the three submit handlers only calls
  \<^verbatim>\<open>preventDefault\<close> and returns: the trace holds no network call and no setter call, so
  the state, the loading flag included, is what it was.
\<close>

theorem submit_without_file:
  assumes "noticeFile s = None" and "tally_file t = None"
  shows "gst_handleSubmit env s net = ([PreventDefault], Returned ()) \<and>
         network_calls (fst (gst_handleSubmit env s net)) = [] \<and>
         setter_calls (fst (gst_handleSubmit env s net)) = [] \<and>
         gst_run s (fst (gst_handleSubmit env s net)) = s \<and>
         tally_handleSubmit env t net = ([PreventDefault], Returned ()) \<and>
         network_calls (fst (tally_handleSubmit env t net)) = [] \<and>
         setter_calls (fst (tally_handleSubmit env t net)) = [] \<and>
         tally_run t (fst (tally_handleSubmit env t net)) = t \<and>
         tally2_handleSubmit env t net = ([PreventDefault], Returned ()) \<and>
         network_calls (fst (tally2_handleSubmit env t net)) = [] \<and>
         setter_calls (fst (tally2_handleSubmit env t net)) = [] \<and>
         tally_run t (fst (tally2_handleSubmit env t net)) = t"
  using assms
  by (simp add: gst_no_file tally_no_file tally2_no_file network_calls_def setter_calls_def
      gst_run_def tally_run_def)

theorem submit_without_file_witness:
  "noticeFile gst_initial = None \<and> tally_file tally_initial = None \<and>
   gst_handleSubmit Map.empty gst_initial NetworkFailure = ([PreventDefault], Returned ()) \<and>
   network_calls (fst (gst_handleSubmit Map.empty gst_initial NetworkFailure)) = [] \<and>
   gst_run gst_initial (fst (gst_handleSubmit Map.empty gst_initial NetworkFailure)) = gst_initial \<and>
   tally_handleSubmit Map.empty tally_initial NetworkFailure = ([PreventDefault], Returned ()) \<and>
   tally2_handleSubmit Map.empty tally_initial NetworkFailure = ([PreventDefault], Returned ())"
proof -
  have a: "noticeFile gst_initial = None" by (simp add: gst_initial_def)
  have b: "tally_file tally_initial = None" by (simp add: tally_initial_def)
  show ?thesis
    using a b submit_without_file [OF a b, of Map.empty NetworkFailure]
    by (simp add: network_calls_def gst_run_def)
qed

text \<open>
  C4, as stated, fails on the second variant of the page: for the response
  \<^verbatim>\<open>{ "rows": 42, "totals": {"Debit": 1000.5, "Credit": 1000.5} }\<close> it stores the response
  and renders both totals, but the row count it renders is \<^verbatim>\<open>result.row_count\<close>, which is
  \<^verbatim>\<open>undefined\<close> and not 42.
\<close>

theorem tally2_row_count_counterexample:
  "tally2_render (tally_result (tally_run example_tally_state
      (fst (tally2_handleSubmit Map.empty example_tally_state
              (Response 200 (JsonBody example_tabular_response)))))) =
     ([], Returned (Elem
        \<lparr>rows_processed = JUndefined,
         totals_items = Elem [(''Debit'', JNum (2001 / 2)), (''Credit'', JNum (2001 / 2))]\<rparr>)) \<and>
   JUndefined \<noteq> JNum 42"
  by (simp add: tally2_json example_tally_state_def tally_initial_def tally_run_def
      example_tabular_response_def tally2_render_totals)

text \<open>
  C4, amended. For a response object that carries a row count under \<^verbatim>\<open>rows\<close> and an
  object under \<^verbatim>\<open>totals\<close>, whatever the status, both variants of the page store the
  response unchanged and render as totals exactly the key/value pairs of the response's
  \<^verbatim>\<open>totals\<close>, in order and with the values untouched. The page of src/unnamed/part_001
  renders the \<^verbatim>\<open>rows\<close> value as row count; the second variant renders the field
  \<^verbatim>\<open>row_count\<close> instead.
\<close>

theorem tally_response_preserved:
  assumes "tally_file t = Some g"
    and "map_of kvs ''rows'' = Some r" and "r \<noteq> JUndefined"
    and "map_of kvs ''totals'' = Some (JObj ts)"
  shows "tally_result (tally_run t (fst (tally_handleSubmit env t
            (Response status (JsonBody (JObj kvs)))))) = JObj kvs \<and>
         tally_render (JObj kvs) =
           ([], Returned (Elem
              \<lparr>error_slot = (case map_of kvs ''error'' of
                                None \<Rightarrow> Falsy JUndefined
                              | Some e \<Rightarrow> if truthy e then Elem e else Falsy e),
               rows_slot = Elem r,
               totals_slot = Elem ts\<rparr>)) \<and>
         tally_result (tally_run t (fst (tally2_handleSubmit env t
            (Response status (JsonBody (JObj kvs)))))) = JObj kvs \<and>
         tally2_render (JObj kvs) =
           ([], Returned (Elem
              \<lparr>rows_processed = (case map_of kvs ''row_count'' of
                                    None \<Rightarrow> JUndefined
                                  | Some v \<Rightarrow> v),
               totals_items = Elem ts\<rparr>))"
proof -
  have "tally_result (tally_run t (fst (tally_handleSubmit env t
            (Response status (JsonBody (JObj kvs)))))) = JObj kvs"
    using assms(1) by (simp add: tally_json tally_run_def)
  moreover have "tally_result (tally_run t (fst (tally2_handleSubmit env t
            (Response status (JsonBody (JObj kvs)))))) = JObj kvs"
    using assms(1) by (simp add: tally2_json tally_run_def)
  ultimately show ?thesis
    using tally_render_rows_totals [OF assms(2,3,4)] tally2_render_totals [OF assms(4)]
    by simp
qed

theorem tally_response_preserved_witness:
  "tally_file example_tally_state = Some example_file \<and>
   tally_result (tally_run example_tally_state (fst (tally_handleSubmit Map.empty example_tally_state
      (Response 200 (JsonBody example_tabular_response))))) = example_tabular_response \<and>
   tally_render example_tabular_response =
     ([], Returned (Elem
        \<lparr>error_slot = Falsy JUndefined,
         rows_slot = Elem (JNum 42),
         totals_slot = Elem [(''Debit'', JNum (2001 / 2)), (''Credit'', JNum (2001 / 2))]\<rparr>)) \<and>
   tally2_render example_tabular_response =
     ([], Returned (Elem
        \<lparr>rows_processed = JUndefined,
         totals_items = Elem [(''Debit'', JNum (2001 / 2)), (''Credit'', JNum (2001 / 2))]\<rparr>))"
proof -
  have a: "tally_file example_tally_state = Some example_file"
    by (simp add: example_tally_state_def)
  have b: "map_of [(''rows'', JNum 42),
             (''totals'', JObj [(''Debit'', JNum (2001 / 2)), (''Credit'', JNum (2001 / 2))])]
             ''rows'' = Some (JNum 42)"
    by simp
  have c: "JNum 42 \<noteq> JUndefined" by simp
  have d: "map_of [(''rows'', JNum 42),
             (''totals'', JObj [(''Debit'', JNum (2001 / 2)), (''Credit'', JNum (2001 / 2))])]
             ''totals'' = Some (JObj [(''Debit'', JNum (2001 / 2)), (''Credit'', JNum (2001 / 2))])"
    by simp
  show ?thesis
    using a tally_response_preserved [OF a b c d, of Map.empty 200]
    by (simp add: example_tabular_response_def)
qed

text \<open>
  C5, as stated, fails on a status outside 2xx: no handler looks at the status. With
  status 500 and a body that parses, the Tally page stores the body as its result and
  the GST page stores the reply and the missing documents, as for a success; the catch
  block does not run.
\<close>

theorem non_2xx_taken_as_success_counterexample:
  "tally_handleSubmit Map.empty example_tally_state
     (Response 500 (JsonBody example_tabular_response)) =
     ([PreventDefault, Set (SetTallyLoading True),
       Fetch ''http://localhost:8000/import_tally'' ''POST'' [(''file'', example_file)],
       Set (SetResult example_tabular_response), Set (SetTallyLoading False)],
      Returned ()) \<and>
   tally_result (tally_run example_tally_state (fst (tally_handleSubmit Map.empty example_tally_state
     (Response 500 (JsonBody example_tabular_response))))) = example_tabular_response \<and>
   example_tabular_response \<noteq> JObj [(''error'', JStr ''Failed to import file'')] \<and>
   logged (fst (tally_handleSubmit Map.empty example_tally_state
     (Response 500 (JsonBody example_tabular_response)))) = [] \<and>
   gst_handleSubmit Map.empty example_gst_state
     (Response 500 (JsonBody example_notice_response)) =
     ([PreventDefault, Set (SetLoading True),
       Fetch ''http://localhost:8000/gst_notice'' ''POST'' [(''notice'', example_file)],
       Set (SetReply (JStr ''Dear Sir...'')), Set (SetMissing (JArr [JStr ''PAN card''])),
       Set (SetLoading False)],
      Returned ())"
  by (simp add: tally_json gst_mapped example_tally_state_def tally_initial_def
      example_gst_state_def gst_initial_def example_notice_response_def
      example_tabular_response_def tally_run_def logged_def
      tally_backendURL_def gst_backendURL_def env_or_def gst_formData_eq js_or_def)

text \<open>
  C5, amended. For a submission with a file selected, every completion of the network
  exchange (the fetch rejects, or a response of any status arrives, its body JSON or not)
  ends the handler with the loading flag reset to false as its last effect. The status
  is not looked at: two responses with the same body are handled alike. On a network
  failure and on a body that is not JSON, the Tally page of src/unnamed/part_001 sets
  its result to \<^verbatim>\<open>{ error: 'Failed to import file' }\<close>.
\<close>

theorem completion_resets_loading:
  assumes "noticeFile s = Some f" and "tally_file t = Some g" and "net \<noteq> NeverSettles"
  shows "snd (gst_handleSubmit env s net) = Returned () \<and>
         last (fst (gst_handleSubmit env s net)) = Set (SetLoading False) \<and>
         loading (gst_run s (fst (gst_handleSubmit env s net))) = False \<and>
         snd (tally_handleSubmit env t net) = Returned () \<and>
         last (fst (tally_handleSubmit env t net)) = Set (SetTallyLoading False) \<and>
         tally_loading (tally_run t (fst (tally_handleSubmit env t net))) = False \<and>
         snd (tally2_handleSubmit env t net) = Returned () \<and>
         last (fst (tally2_handleSubmit env t net)) = Set (SetTallyLoading False) \<and>
         tally_loading (tally_run t (fst (tally2_handleSubmit env t net))) = False \<and>
         gst_handleSubmit env s (Response status b) = gst_handleSubmit env s (Response status' b) \<and>
         tally_handleSubmit env t (Response status b) = tally_handleSubmit env t (Response status' b) \<and>
         tally2_handleSubmit env t (Response status b) = tally2_handleSubmit env t (Response status' b) \<and>
         tally_result (tally_run t (fst (tally_handleSubmit env t NetworkFailure))) =
           JObj [(''error'', JStr ''Failed to import file'')] \<and>
         tally_result (tally_run t (fst (tally_handleSubmit env t (Response status NotJson)))) =
           JObj [(''error'', JStr ''Failed to import file'')]"
proof -
  have gst: "snd (gst_handleSubmit env s net) = Returned () \<and>
         last (fst (gst_handleSubmit env s net)) = Set (SetLoading False) \<and>
         loading (gst_run s (fst (gst_handleSubmit env s net))) = False"
  proof (cases net)
    case NeverSettles
    with assms(3) show ?thesis by simp
  next
    case NetworkFailure
    with assms(1) show ?thesis by (simp add: gst_network_failure gst_run_def)
  next
    case (Response st bd)
    show ?thesis
    proof (cases bd)
      case NotJson
      with assms(1) Response show ?thesis by (simp add: gst_not_json gst_run_def)
    next
      case (JsonBody d)
      with assms(1) Response show ?thesis
        by (cases "nullish d") (simp_all add: gst_nullish gst_mapped gst_run_def)
    qed
  qed
  have tally: "snd (tally_handleSubmit env t net) = Returned () \<and>
         last (fst (tally_handleSubmit env t net)) = Set (SetTallyLoading False) \<and>
         tally_loading (tally_run t (fst (tally_handleSubmit env t net))) = False"
  proof (cases net)
    case NeverSettles
    with assms(3) show ?thesis by simp
  next
    case NetworkFailure
    with assms(2) show ?thesis by (simp add: tally_network_failure tally_run_def)
  next
    case (Response st bd)
    with assms(2) show ?thesis
      by (cases bd) (simp_all add: tally_not_json tally_json tally_run_def)
  qed
  have tally2: "snd (tally2_handleSubmit env t net) = Returned () \<and>
         last (fst (tally2_handleSubmit env t net)) = Set (SetTallyLoading False) \<and>
         tally_loading (tally_run t (fst (tally2_handleSubmit env t net))) = False"
  proof (cases net)
    case NeverSettles
    with assms(3) show ?thesis by simp
  next
    case NetworkFailure
    with assms(2) show ?thesis by (simp add: tally2_network_failure tally_run_def)
  next
    case (Response st bd)
    with assms(2) show ?thesis
      by (cases bd) (simp_all add: tally2_not_json tally2_json tally_run_def)
  qed
  have status: "gst_handleSubmit env s (Response status b) = gst_handleSubmit env s (Response status' b) \<and>
         tally_handleSubmit env t (Response status b) = tally_handleSubmit env t (Response status' b) \<and>
         tally2_handleSubmit env t (Response status b) = tally2_handleSubmit env t (Response status' b)"
  proof (cases b)
    case NotJson
    with assms(1,2) show ?thesis
      by (simp add: gst_not_json tally_not_json tally2_not_json)
  next
    case (JsonBody d)
    with assms(1,2) show ?thesis
      by (cases "nullish d") (simp_all add: gst_nullish gst_mapped tally_json tally2_json)
  qed
  have failed: "tally_result (tally_run t (fst (tally_handleSubmit env t NetworkFailure))) =
           JObj [(''error'', JStr ''Failed to import file'')] \<and>
         tally_result (tally_run t (fst (tally_handleSubmit env t (Response status NotJson)))) =
           JObj [(''error'', JStr ''Failed to import file'')]"
    using assms(2) by (simp add: tally_network_failure tally_not_json tally_run_def)
  from gst tally tally2 status failed show ?thesis by simp
qed

theorem completion_resets_loading_witness:
  "noticeFile example_gst_state = Some example_file \<and>
   tally_file example_tally_state = Some example_file \<and>
   Response 503 NotJson \<noteq> NeverSettles \<and>
   snd (gst_handleSubmit Map.empty example_gst_state (Response 503 NotJson)) = Returned () \<and>
   loading (gst_run example_gst_state
     (fst (gst_handleSubmit Map.empty example_gst_state (Response 503 NotJson)))) = False \<and>
   tally_loading (tally_run example_tally_state
     (fst (tally_handleSubmit Map.empty example_tally_state (Response 503 NotJson)))) = False \<and>
   tally_loading (tally_run example_tally_state
     (fst (tally2_handleSubmit Map.empty example_tally_state (Response 503 NotJson)))) = False \<and>
   tally_result (tally_run example_tally_state
     (fst (tally_handleSubmit Map.empty example_tally_state (Response 503 NotJson)))) =
     JObj [(''error'', JStr ''Failed to import file'')]"
proof -
  have a: "noticeFile example_gst_state = Some example_file"
    by (simp add: example_gst_state_def)
  have b: "tally_file example_tally_state = Some example_file"
    by (simp add: example_tally_state_def)
  have c: "Response 503 NotJson \<noteq> NeverSettles" by simp
  show ?thesis
    using a b completion_resets_loading [OF a b c, of Map.empty 503 NotJson 503]
    by simp
qed

text \<open>
  C6, as stated, fails: on the GST page a submission without a file calls no setter, so
  nothing new is shown, and a submission whose fetch fails leaves the state, and with it
  the rendered page, exactly as it was before the submission.
\<close>

theorem gst_error_not_shown_counterexample:
  "gst_handleSubmit Map.empty gst_initial (Response 200 (JsonBody example_notice_response)) =
     ([PreventDefault], Returned ()) \<and>
   gst_handleSubmit Map.empty example_gst_state NetworkFailure =
     ([PreventDefault, Set (SetLoading True),
       Fetch ''http://localhost:8000/gst_notice'' ''POST'' [(''notice'', example_file)],
       ConsoleError FetchTypeError, Set (SetLoading False)],
      Returned ()) \<and>
   gst_run example_gst_state (fst (gst_handleSubmit Map.empty example_gst_state NetworkFailure)) =
     example_gst_state"
  by (simp add: gst_no_file gst_network_failure example_gst_state_def gst_initial_def
      gst_backendURL_def env_or_def gst_formData_eq gst_run_def)

text \<open>
  C6, amended. No submit handler ever completes by throwing. With a file selected, a
  failed fetch and a body that is not JSON are caught and logged with
  \<^verbatim>\<open>console.error\<close>. The Tally page of src/unnamed/part_001 then sets its result to
  \<^verbatim>\<open>{ error: 'Failed to import file' }\<close>, which it renders as the error text; the GST page
  and the second Tally variant change nothing but the loading flag. A submission without
  a file returns after \<^verbatim>\<open>preventDefault\<close>, with no message.
\<close>

theorem submit_errors_caught:
  assumes "noticeFile s = Some f" and "tally_file t = Some g"
  shows "(\<forall>s' net e. snd (gst_handleSubmit env s' net) \<noteq> Thrown e) \<and>
         (\<forall>t' net e. snd (tally_handleSubmit env t' net) \<noteq> Thrown e) \<and>
         (\<forall>t' net e. snd (tally2_handleSubmit env t' net) \<noteq> Thrown e) \<and>
         logged (fst (gst_handleSubmit env s NetworkFailure)) = [ConsoleError FetchTypeError] \<and>
         logged (fst (gst_handleSubmit env s (Response status NotJson))) = [ConsoleError JsonSyntaxError] \<and>
         gst_run s (fst (gst_handleSubmit env s NetworkFailure)) = s\<lparr>loading := False\<rparr> \<and>
         gst_run s (fst (gst_handleSubmit env s (Response status NotJson))) = s\<lparr>loading := False\<rparr> \<and>
         logged (fst (tally_handleSubmit env t NetworkFailure)) = [ConsoleError FetchTypeError] \<and>
         logged (fst (tally_handleSubmit env t (Response status NotJson))) = [ConsoleError JsonSyntaxError] \<and>
         tally_run t (fst (tally_handleSubmit env t NetworkFailure)) =
           t\<lparr>tally_result := JObj [(''error'', JStr ''Failed to import file'')], tally_loading := False\<rparr> \<and>
         tally_run t (fst (tally_handleSubmit env t (Response status NotJson))) =
           t\<lparr>tally_result := JObj [(''error'', JStr ''Failed to import file'')], tally_loading := False\<rparr> \<and>
         tally_render (JObj [(''error'', JStr ''Failed to import file'')]) =
           ([], Returned (Elem
              \<lparr>error_slot = Elem (JStr ''Failed to import file''),
               rows_slot = Falsy (JBool False),
               totals_slot = Falsy JUndefined\<rparr>)) \<and>
         logged (fst (tally2_handleSubmit env t NetworkFailure)) = [ConsoleError FetchTypeError] \<and>
         logged (fst (tally2_handleSubmit env t (Response status NotJson))) = [ConsoleError JsonSyntaxError] \<and>
         tally_run t (fst (tally2_handleSubmit env t NetworkFailure)) = t\<lparr>tally_loading := False\<rparr> \<and>
         tally_run t (fst (tally2_handleSubmit env t (Response status NotJson))) = t\<lparr>tally_loading := False\<rparr> \<and>
         gst_handleSubmit env (s\<lparr>noticeFile := None\<rparr>) net0 = ([PreventDefault], Returned ()) \<and>
         tally_handleSubmit env (t\<lparr>tally_file := None\<rparr>) net0 = ([PreventDefault], Returned ()) \<and>
         tally2_handleSubmit env (t\<lparr>tally_file := None\<rparr>) net0 = ([PreventDefault], Returned ())"
proof -
  have escape: "(\<forall>s' net e. snd (gst_handleSubmit env s' net) \<noteq> Thrown e) \<and>
         (\<forall>t' net e. snd (tally_handleSubmit env t' net) \<noteq> Thrown e) \<and>
         (\<forall>t' net e. snd (tally2_handleSubmit env t' net) \<noteq> Thrown e)"
    by (simp add: gst_not_thrown tally_not_thrown tally2_not_thrown)
  have gst: "logged (fst (gst_handleSubmit env s NetworkFailure)) = [ConsoleError FetchTypeError] \<and>
         logged (fst (gst_handleSubmit env s (Response status NotJson))) = [ConsoleError JsonSyntaxError] \<and>
         gst_run s (fst (gst_handleSubmit env s NetworkFailure)) = s\<lparr>loading := False\<rparr> \<and>
         gst_run s (fst (gst_handleSubmit env s (Response status NotJson))) = s\<lparr>loading := False\<rparr>"
    using assms(1) by (simp add: gst_network_failure gst_not_json logged_def gst_run_def)
  have tally: "logged (fst (tally_handleSubmit env t NetworkFailure)) = [ConsoleError FetchTypeError] \<and>
         logged (fst (tally_handleSubmit env t (Response status NotJson))) = [ConsoleError JsonSyntaxError] \<and>
         tally_run t (fst (tally_handleSubmit env t NetworkFailure)) =
           t\<lparr>tally_result := JObj [(''error'', JStr ''Failed to import file'')], tally_loading := False\<rparr> \<and>
         tally_run t (fst (tally_handleSubmit env t (Response status NotJson))) =
           t\<lparr>tally_result := JObj [(''error'', JStr ''Failed to import file'')], tally_loading := False\<rparr>"
    using assms(2) by (simp add: tally_network_failure tally_not_json logged_def tally_run_def)
  have shown: "tally_render (JObj [(''error'', JStr ''Failed to import file'')]) =
           ([], Returned (Elem
              \<lparr>error_slot = Elem (JStr ''Failed to import file''),
               rows_slot = Falsy (JBool False),
               totals_slot = Falsy JUndefined\<rparr>))"
    by (simp add: tally_render_def act_defs)
  have tally2: "logged (fst (tally2_handleSubmit env t NetworkFailure)) = [ConsoleError FetchTypeError] \<and>
         logged (fst (tally2_handleSubmit env t (Response status NotJson))) = [ConsoleError JsonSyntaxError] \<and>
         tally_run t (fst (tally2_handleSubmit env t NetworkFailure)) = t\<lparr>tally_loading := False\<rparr> \<and>
         tally_run t (fst (tally2_handleSubmit env t (Response status NotJson))) = t\<lparr>tally_loading := False\<rparr>"
    using assms(2) by (simp add: tally2_network_failure tally2_not_json logged_def tally_run_def)
  have silent: "gst_handleSubmit env (s\<lparr>noticeFile := None\<rparr>) net0 = ([PreventDefault], Returned ()) \<and>
         tally_handleSubmit env (t\<lparr>tally_file := None\<rparr>) net0 = ([PreventDefault], Returned ()) \<and>
         tally2_handleSubmit env (t\<lparr>tally_file := None\<rparr>) net0 = ([PreventDefault], Returned ())"
    by (simp add: gst_no_file tally_no_file tally2_no_file)
  from escape gst tally shown tally2 silent show ?thesis by blast
qed

theorem submit_errors_caught_witness:
  "noticeFile example_gst_state = Some example_file \<and>
   tally_file example_tally_state = Some example_file \<and>
   snd (gst_handleSubmit Map.empty example_gst_state (Response 200 (JsonBody JNull))) \<noteq>
     Thrown NullishTypeError \<and>
   logged (fst (gst_handleSubmit Map.empty example_gst_state NetworkFailure)) =
     [ConsoleError FetchTypeError] \<and>
   gst_run example_gst_state (fst (gst_handleSubmit Map.empty example_gst_state NetworkFailure)) =
     example_gst_state \<and>
   tally_result (tally_run example_tally_state
     (fst (tally_handleSubmit Map.empty example_tally_state (Response 502 NotJson)))) =
     JObj [(''error'', JStr ''Failed to import file'')] \<and>
   tally_run example_tally_state
     (fst (tally2_handleSubmit Map.empty example_tally_state (Response 502 NotJson))) =
     example_tally_state"
proof -
  have a: "noticeFile example_gst_state = Some example_file"
    by (simp add: example_gst_state_def)
  have b: "tally_file example_tally_state = Some example_file"
    by (simp add: example_tally_state_def)
  have c: "example_gst_state\<lparr>loading := False\<rparr> = example_gst_state"
    by (simp add: example_gst_state_def gst_initial_def)
  have d: "example_tally_state\<lparr>tally_loading := False\<rparr> = example_tally_state"
    by (simp add: example_tally_state_def tally_initial_def)
  show ?thesis
    using a b c d submit_errors_caught [OF a b, of Map.empty 502 NetworkFailure]
    by simp
qed

text \<open>
  C7. With \<^verbatim>\<open>NEXT_PUBLIC_BACKEND_URL\<close> absent from the environment, the bridge handler
  posts to \<^verbatim>\<open>undefined/generate_reply\<close>: line 11 concatenates the variable with the path
  and has no default, unlike the other call sites.
\<close>

theorem handler_url_env_absent:
  "handler Map.empty example_request (AxiosResolved (JObj [(''reply'', JStr ''ok'')])) =
     ([AxiosPost ''undefined/generate_reply'' (JObj [(''message'', JStr ''Hello'')]),
       Respond 200 (JObj [(''reply'', JStr ''ok'')])],
      Returned ()) \<and>
   ''undefined/generate_reply'' \<noteq> ''http://localhost:8000/generate_reply''"
  by (simp add: handler_resolved example_request_def env_plus_def js_or_def)

text \<open>
  C8. For a POST request whose body is an object with a \<^verbatim>\<open>prompt\<close>, the handler makes
  exactly one downstream call, an \<^verbatim>\<open>axios.post\<close> to the \<^verbatim>\<open>/generate_reply\<close> endpoint with
  the body \<^verbatim>\<open>{ message: prompt }\<close>, whatever the downstream does. When the downstream
  resolves with an object, the handler answers 200 with \<^verbatim>\<open>{ reply }\<close>, where \<^verbatim>\<open>reply\<close> is
  the empty string if the downstream object has no \<^verbatim>\<open>reply\<close>, the downstream reply if it is
  a string, and otherwise the downstream value if truthy and the empty string if not.
\<close>

theorem handler_forwards_prompt:
  assumes "req_method req = ''POST''" and "req_body req = JObj kvs"
    and "map_of kvs ''prompt'' = Some p"
  shows "(\<forall>down. network_calls (fst (handler env req down)) =
            [AxiosPost (env_plus (env ''NEXT_PUBLIC_BACKEND_URL'') ''/generate_reply'')
               (JObj [(''message'', p)])]) \<and>
         handler env req (AxiosResolved (JObj d)) =
           ([AxiosPost (env_plus (env ''NEXT_PUBLIC_BACKEND_URL'') ''/generate_reply'')
               (JObj [(''message'', p)]),
             Respond 200 (JObj [(''reply'',
               case map_of d ''reply'' of
                 None \<Rightarrow> JStr []
               | Some (JStr r) \<Rightarrow> JStr r
               | Some v \<Rightarrow> if truthy v then v else JStr [])])],
            Returned ())"
proof -
  have body: "\<not> nullish (req_body req)" and prompt: "member (req_body req) ''prompt'' = p"
    using assms(2,3) by simp_all
  have calls: "network_calls (fst (handler env req down)) =
            [AxiosPost (env_plus (env ''NEXT_PUBLIC_BACKEND_URL'') ''/generate_reply'')
               (JObj [(''message'', p)])]" for down
    using handler_network_calls [OF assms(1) body, of env down] prompt by simp
  have "js_or (member (JObj d) ''reply'') (JStr []) =
          (case map_of d ''reply'' of
             None \<Rightarrow> JStr []
           | Some (JStr r) \<Rightarrow> JStr r
           | Some v \<Rightarrow> if truthy v then v else JStr [])"
    by (simp add: js_or_def split: option.splits jsval.splits)
  then have resolved: "handler env req (AxiosResolved (JObj d)) =
           ([AxiosPost (env_plus (env ''NEXT_PUBLIC_BACKEND_URL'') ''/generate_reply'')
               (JObj [(''message'', p)]),
             Respond 200 (JObj [(''reply'',
               case map_of d ''reply'' of
                 None \<Rightarrow> JStr []
               | Some (JStr r) \<Rightarrow> JStr r
               | Some v \<Rightarrow> if truthy v then v else JStr [])])],
            Returned ())"
    using handler_resolved [OF assms(1) body, of "JObj d" env] prompt by simp
  from calls resolved show ?thesis by blast
qed

theorem handler_forwards_prompt_witness:
  "req_method example_request = ''POST'' \<and>
   req_body example_request = JObj [(''prompt'', JStr ''Hello'')] \<and>
   map_of [(''prompt'', JStr ''Hello'')] ''prompt'' = Some (JStr ''Hello'') \<and>
   network_calls (fst (handler [''NEXT_PUBLIC_BACKEND_URL'' \<mapsto> ''http://api.example''] example_request
      AxiosRejected)) =
     [AxiosPost ''http://api.example/generate_reply'' (JObj [(''message'', JStr ''Hello'')])] \<and>
   handler [''NEXT_PUBLIC_BACKEND_URL'' \<mapsto> ''http://api.example''] example_request
      (AxiosResolved (JObj [(''reply'', JStr ''Namaste'')])) =
     ([AxiosPost ''http://api.example/generate_reply'' (JObj [(''message'', JStr ''Hello'')]),
       Respond 200 (JObj [(''reply'', JStr ''Namaste'')])],
      Returned ()) \<and>
   handler [''NEXT_PUBLIC_BACKEND_URL'' \<mapsto> ''http://api.example''] example_request
      (AxiosResolved (JObj [])) =
     ([AxiosPost ''http://api.example/generate_reply'' (JObj [(''message'', JStr ''Hello'')]),
       Respond 200 (JObj [(''reply'', JStr [])])],
      Returned ())"
proof -
  have a: "req_method example_request = ''POST''"
    by (simp add: example_request_def)
  have b: "req_body example_request = JObj [(''prompt'', JStr ''Hello'')]"
    by (simp add: example_request_def)
  have c: "map_of [(''prompt'', JStr ''Hello'')] ''prompt'' = Some (JStr ''Hello'')"
    by simp
  show ?thesis
    using a b c
      handler_forwards_prompt [OF a b c,
        of "[''NEXT_PUBLIC_BACKEND_URL'' \<mapsto> ''http://api.example'']" "[(''reply'', JStr ''Namaste'')]"]
      handler_forwards_prompt [OF a b c,
        of "[''NEXT_PUBLIC_BACKEND_URL'' \<mapsto> ''http://api.example'']" "[]"]
    by (simp add: env_plus_def)
qed

text \<open>
  C9. On the GST page, with a file selected, a submission whose fetch rejects or whose
  body is not JSON calls only the loading setter, once with true and once with false:
  the state afterwards is the state before with loading false, so the reply and the
  missing documents shown before are still there.
\<close>

theorem gst_failure_keeps_result:
  assumes "noticeFile s = Some f"
    and "net = NetworkFailure \<or> net = Response status NotJson"
  shows "setter_calls (fst (gst_handleSubmit env s net)) =
           [Set (SetLoading True), Set (SetLoading False)] \<and>
         gst_run s (fst (gst_handleSubmit env s net)) = s\<lparr>loading := False\<rparr> \<and>
         reply (gst_run s (fst (gst_handleSubmit env s net))) = reply s \<and>
         missing (gst_run s (fst (gst_handleSubmit env s net))) = missing s"
  using assms
  by (auto simp: gst_network_failure gst_not_json setter_calls_def gst_run_def)

theorem gst_failure_keeps_result_witness:
  "noticeFile (gst_run example_gst_state (fst (gst_handleSubmit Map.empty example_gst_state
      (Response 200 (JsonBody example_notice_response))))) = Some example_file \<and>
   (Response 500 NotJson = NetworkFailure \<or> Response 500 NotJson = Response 500 NotJson) \<and>
   reply (gst_run example_gst_state (fst (gst_handleSubmit Map.empty example_gst_state
      (Response 200 (JsonBody example_notice_response))))) = JStr ''Dear Sir...'' \<and>
   reply (gst_run
      (gst_run example_gst_state (fst (gst_handleSubmit Map.empty example_gst_state
         (Response 200 (JsonBody example_notice_response)))))
      (fst (gst_handleSubmit Map.empty
         (gst_run example_gst_state (fst (gst_handleSubmit Map.empty example_gst_state
            (Response 200 (JsonBody example_notice_response)))))
         (Response 500 NotJson)))) = JStr ''Dear Sir...'' \<and>
   missing (gst_run
      (gst_run example_gst_state (fst (gst_handleSubmit Map.empty example_gst_state
         (Response 200 (JsonBody example_notice_response)))))
      (fst (gst_handleSubmit Map.empty
         (gst_run example_gst_state (fst (gst_handleSubmit Map.empty example_gst_state
            (Response 200 (JsonBody example_notice_response)))))
         (Response 500 NotJson)))) = JArr [JStr ''PAN card'']"
proof -
  have first: "gst_run example_gst_state (fst (gst_handleSubmit Map.empty example_gst_state
      (Response 200 (JsonBody example_notice_response)))) =
      example_gst_state\<lparr>reply := JStr ''Dear Sir...'', missing := JArr [JStr ''PAN card'']\<rparr>"
    by (simp add: gst_mapped example_gst_state_def gst_initial_def example_notice_response_def
        js_or_def gst_run_def)
  have a: "noticeFile (example_gst_state\<lparr>reply := JStr ''Dear Sir...'',
             missing := JArr [JStr ''PAN card'']\<rparr>) = Some example_file"
    by (simp add: example_gst_state_def)
  have b: "Response 500 NotJson = NetworkFailure \<or> Response 500 NotJson = Response 500 NotJson"
    by simp
  show ?thesis
    using a b gst_failure_keeps_result [OF a b, of Map.empty]
    by (simp add: first)
qed

text \<open>
  C10. For a request whose method is not \<^verbatim>\<open>POST\<close>, the handler answers 405 with the body
  \<^verbatim>\<open>{ message: 'Method not allowed' }\<close> and does nothing else: its trace holds no network
  call.
\<close>

theorem handler_rejects_other_methods:
  assumes "req_method req \<noteq> ''POST''"
  shows "handler env req down =
           ([Respond 405 (JObj [(''message'', JStr ''Method not allowed'')])], Returned ()) \<and>
         network_calls (fst (handler env req down)) = []"
  using assms by (simp add: handler_not_post network_calls_def)

theorem handler_rejects_other_methods_witness:
  "req_method (example_request\<lparr>req_method := ''GET''\<rparr>) \<noteq> ''POST'' \<and>
   handler Map.empty (example_request\<lparr>req_method := ''GET''\<rparr>) (AxiosResolved (JObj [(''reply'', JStr ''ok'')])) =
     ([Respond 405 (JObj [(''message'', JStr ''Method not allowed'')])], Returned ()) \<and>
   network_calls (fst (handler Map.empty (example_request\<lparr>req_method := ''GET''\<rparr>)
     (AxiosResolved (JObj [(''reply'', JStr ''ok'')])))) = []"
proof -
  have a: "req_method (example_request\<lparr>req_method := ''GET''\<rparr>) \<noteq> ''POST''"
    by simp
  show ?thesis
    using a handler_rejects_other_methods [OF a, of Map.empty "AxiosResolved (JObj [(''reply'', JStr ''ok'')])"]
    by (simp add: network_calls_def)
qed

end
